theory Spec2Isabelle
  imports Complex_Main "HOL-Library.Word"
begin

section \<open>NutriTrack: the calculators and the meal log of app.py\<close>

text \<open>
  The program is one Streamlit script. Each button handler is embedded as a function from
  the widget values (and, for the meal analysis, the session state) to what the handler
  does: the value it computes, the message it shows, or the exception it raises.

  Numbers: the widgets deliver Python floats (weight, height) and a Python int (age).
  A float is read here as the real number it denotes.
  \<^item> Comparing two doubles is exact, so the chain of comparisons of the BMI tab is
    modelled exactly: its literals 24.9 and 29.9 are the doubles they denote, which lie
    just below the decimals; 18.5 and 25 are doubles as they stand.
  \<^item> Arithmetic on doubles rounds. \<open>bmi_button_float\<close> is the BMI handler with the
    interpreter's \<^verbatim>\<open>**\<close> and \<^verbatim>\<open>/\<close> as parameters, so what is proved of it holds
    whatever they round to. \<open>bmi\<close>, \<open>bmi_button\<close> and the calorie and water handlers
    take the arithmetic as exact and the decimals of the formulas as decimals: the
    values they give are those of the script up to rounding.
  \<^item> Overflow, underflow, infinities and NaN are outside the model.
\<close>

subsection \<open>What a calculator handler does\<close>

text \<open>
  \<open>KeyError k\<close> is the exception of a dictionary subscript with a missing key \<open>k\<close>;
  in Python it is a subclass of LookupError.
\<close>

datatype py_exception = KeyError string

text \<open>
  A calculator handler either raises (nothing catches it inside the handler), or shows a
  message with \<open>st.error\<close> and computes nothing, or computes and shows a result.
\<close>

datatype 'a outcome = Raised py_exception | St_error string | Computed 'a

subsection \<open>Float literals\<close>

text \<open>Rounding to the nearest integer, a tie going to the even one.\<close>

definition round_half_even :: "real \<Rightarrow> int" where
  "round_half_even x =
     (let f = \<lfloor>x\<rfloor>; r = x - real_of_int f
      in if r < 1 / 2 then f
         else if 1 / 2 < r then f + 1
         else if even f then f else f + 1)"

text \<open>
  The double that a decimal literal \<open>x\<close> with \<open>16 \<le> x < 32\<close> denotes. A double has 53
  significant bits, so the doubles from 16 to 32 are the multiples of \<open>2 ^ (4 - 52)\<close>;
  Python reads a literal as the nearest double, a tie going to the even significand.
\<close>

definition float_literal_16_32 :: "real \<Rightarrow> real" where
  "float_literal_16_32 x = real_of_int (round_half_even (x * 2 ^ 48)) / 2 ^ 48"

subsection \<open>Tab 2: BMI calculator\<close>

text \<open>The four branches of the chain at lines 153-160, named by the message each shows.\<close>

datatype category = Underweight | Normal | Overweight | Obese

fun category_message :: "category \<Rightarrow> string" where
  "category_message Underweight = ''Underweight: Aim for a balanced diet and regular meals.''"
| "category_message Normal = ''Normal weight: Great job maintaining your health!''"
| "category_message Overweight =
     ''Overweight: Consider regular exercise and dietary adjustments.''"
| "category_message Obese = ''Obesity: Consult a healthcare professional for guidance.''"

text \<open>
  Line 150: \<^verbatim>\<open>bmi = weight_bmi / (height_bmi ** 2)\<close>, in exact arithmetic: the value
  the script computes, up to the rounding of \<^verbatim>\<open>**\<close> and of \<^verbatim>\<open>/\<close>.
\<close>

definition bmi :: "real \<Rightarrow> real \<Rightarrow> real" where
  "bmi weight_bmi height_bmi = weight_bmi / (height_bmi ^ 2)"

text \<open>
  Lines 153-160: the \<^verbatim>\<open>if / elif / elif / else\<close> chain, in the source's order, on the
  double \<open>b\<close> that line 150 computed. The literals \<^verbatim>\<open>24.9\<close> and \<^verbatim>\<open>29.9\<close> are not
  doubles; the chain compares with the doubles they denote. \<^verbatim>\<open>18.5\<close> is a double and
  \<^verbatim>\<open>25\<close> is an int, both compared at their exact value.
\<close>

definition bmi_category :: "real \<Rightarrow> category" where
  "bmi_category b =
     (if b < 18.5 then Underweight
      else if 18.5 \<le> b \<and> b < float_literal_16_32 24.9 then Normal
      else if 25 \<le> b \<and> b < float_literal_16_32 29.9 then Overweight
      else Obese)"

text \<open>
  Lines 148-162: the handler of the button "Calculate BMI", with the double arithmetic
  of the interpreter as parameters: \<open>float_pow x n\<close> for \<^verbatim>\<open>x ** n\<close> and
  \<open>float_div x y\<close> for \<^verbatim>\<open>x / y\<close>.
\<close>

definition bmi_button_float ::
  "(real \<Rightarrow> nat \<Rightarrow> real) \<Rightarrow> (real \<Rightarrow> real \<Rightarrow> real) \<Rightarrow> real \<Rightarrow> real
     \<Rightarrow> (real \<times> category) outcome" where
  "bmi_button_float float_pow float_div weight_bmi height_bmi =
     (if height_bmi > 0
      then (let bmi_value = float_div weight_bmi (float_pow height_bmi 2)
            in Computed (bmi_value, bmi_category bmi_value))
      else St_error ''Height must be greater than zero.'')"

text \<open>The same handler in exact arithmetic.\<close>

definition bmi_button :: "real \<Rightarrow> real \<Rightarrow> (real \<times> category) outcome" where
  "bmi_button weight_bmi height_bmi =
     (if height_bmi > 0
      then Computed (bmi weight_bmi height_bmi, bmi_category (bmi weight_bmi height_bmi))
      else St_error ''Height must be greater than zero.'')"

subsection \<open>Tab 3: daily calorie requirement\<close>

text \<open>Lines 183-188: the dictionary \<^verbatim>\<open>activity_multipliers\<close>.\<close>

definition activity_multipliers :: "string \<rightharpoonup> real" where
  "activity_multipliers = map_of
     [(''Sedentary (little or no exercise)'', 1.2),
      (''Lightly active (light exercise/sports 1-3 days/week)'', 1.375),
      (''Moderately active (moderate exercise/sports 3-5 days/week)'', 1.55),
      (''Very active (hard exercise/sports 6-7 days/week)'', 1.725)]"

text \<open>The subscript \<^verbatim>\<open>activity_multipliers[activity_level]\<close> of line 189.\<close>

definition activity_multipliers_getitem :: "string \<Rightarrow> py_exception + real" where
  "activity_multipliers_getitem activity_level =
     (case activity_multipliers activity_level of
        None \<Rightarrow> Inl (KeyError activity_level)
      | Some m \<Rightarrow> Inr m)"

text \<open>
  Lines 180-192: the handler of the button "Calculate Daily Calories". \<open>age\<close> is a Python
  int (the widget has an int minimum and step), \<open>gender\<close> and \<open>activity_level\<close> are the
  strings of the select boxes.
\<close>

definition calorie_req_button ::
  "int \<Rightarrow> real \<Rightarrow> real \<Rightarrow> string \<Rightarrow> string \<Rightarrow> real outcome" where
  "calorie_req_button age weight_calorie height_calorie gender activity_level =
     (if age > 0 \<and> weight_calorie > 0 \<and> height_calorie > 0
      then
        (let bmr = 10 * weight_calorie + 6.25 * (height_calorie * 100) - 5 * real_of_int age
                   + (if gender = ''Male'' then 5 else - 161)
         in case activity_multipliers_getitem activity_level of
              Inl e \<Rightarrow> Raised e
            | Inr m \<Rightarrow> Computed (bmr * m))
      else St_error ''Please provide valid inputs.'')"

subsection \<open>Tab 4: water intake\<close>

text \<open>Lines 208-213: the dictionary \<^verbatim>\<open>activity_multiplier\<close>, with int values.\<close>

definition activity_multiplier :: "string \<rightharpoonup> int" where
  "activity_multiplier = map_of
     [(''Sedentary (little or no exercise)'', 30),
      (''Lightly active (light exercise/sports 1-3 days/week)'', 35),
      (''Moderately active (moderate exercise/sports 3-5 days/week)'', 40),
      (''Very active (hard exercise/sports 6-7 days/week)'', 45)]"

text \<open>The subscript \<^verbatim>\<open>activity_multiplier[activity_level_water]\<close> of line 214.\<close>

definition activity_multiplier_getitem :: "string \<Rightarrow> py_exception + int" where
  "activity_multiplier_getitem activity_level_water =
     (case activity_multiplier activity_level_water of
        None \<Rightarrow> Inl (KeyError activity_level_water)
      | Some m \<Rightarrow> Inr m)"

text \<open>
  Lines 207-215: the handler of the button "Calculate Water Intake". It has no check of
  its own on the weight.
\<close>

definition water_button :: "real \<Rightarrow> string \<Rightarrow> real outcome" where
  "water_button weight_water activity_level_water =
     (case activity_multiplier_getitem activity_level_water of
        Inl e \<Rightarrow> Raised e
      | Inr m \<Rightarrow> Computed (weight_water * real_of_int m / 1000))"

subsection \<open>Tab 1: meal analysis and the meal log\<close>

text \<open>Lines 94-107: the prompt template, a triple-quoted literal with its line breaks.\<close>

definition input_prompt :: string where
  "input_prompt =
     ''\<newline>'' @
     ''    You are an expert Nutritionist and Food Image Analyst. Analyze the food items '' @
     ''present in the uploaded image and perform the following tasks:\<newline>'' @
     ''    1. Identify each distinct food item present in the image.\<newline>'' @
     ''    2. For each identified food item, provide:\<newline>'' @
     ''       - Name of the food item.\<newline>'' @
     ''       - Estimated quantity or portion size (e.g., grams, slices, etc.).\<newline>'' @
     ''       - Estimated calorie count based on the portion size.\<newline>'' @
     ''    3. Summarize the results in a well-structured table with the following '' @
     ''columns:\<newline>'' @
     ''       - Food Item\<newline>'' @
     ''       - Portion Size\<newline>'' @
     ''       - Calorie Count\<newline>'' @
     ''    4. At the end, calculate and display the **total calorie count** of all the '' @
     ''identified food items.\<newline>'' @
     ''    Ensure accuracy and clarity in your results.\<newline>'' @
     ''    ''"

text \<open>
  An uploaded file, as far as the script reads it: \<^verbatim>\<open>uploaded_file.type\<close> and
  \<^verbatim>\<open>uploaded_file.getvalue()\<close>.
\<close>

type_synonym bytes = "8 word list"

record uploaded_file =
  upload_type :: string
  upload_value :: bytes

record image_part =
  mime_type :: string
  data :: bytes

text \<open>Lines 20-28.\<close>

definition input_image_setup :: "uploaded_file \<Rightarrow> image_part list" where
  "input_image_setup f = [\<lparr>mime_type = upload_type f, data = upload_value f\<rparr>]"

text \<open>
  The external vision model is a parameter: what \<^verbatim>\<open>GenerativeModel(...)\<close>,
  \<^verbatim>\<open>generate_content([prompt, part])\<close> and \<^verbatim>\<open>response.text\<close> do at this call,
  either raising an exception derived from \<open>Exception\<close> (\<open>Inl\<close>, with its text \<open>str(e)\<close>)
  or returning the generated text (\<open>Inr\<close>).
\<close>

type_synonym vision_model = "string \<Rightarrow> image_part \<Rightarrow> string + string"

text \<open>
  Lines 14-17. The argument list \<^verbatim>\<open>[prompt, image[0]]\<close> is built before the call, so an
  empty \<open>image\<close> (here \<open>image_arg\<close>) raises IndexError.
\<close>

definition get_gemini_response ::
  "vision_model \<Rightarrow> image_part list \<Rightarrow> string \<Rightarrow> string + string" where
  "get_gemini_response generate_content image_arg prompt =
     (case image_arg of
        [] \<Rightarrow> Inl ''list index out of range''
      | part # _ \<Rightarrow> generate_content prompt part)"

text \<open>Line 124; a Python string is true when it is not empty.\<close>

definition full_prompt :: "string \<Rightarrow> string" where
  "full_prompt input_text =
     (if input_text \<noteq> []
      then input_prompt @ ''\<newline>\<newline>Additional Input: '' @ input_text
      else input_prompt)"

text \<open>The dictionary appended at lines 132-135, with its two keys.\<close>

record meal_record =
  meal_name :: string
  response :: string

text \<open>
  The session state, as far as the script uses it: the key \<^verbatim>\<open>"meal_logs"\<close>, absent
  (\<open>None\<close>) until the first successful analysis.
\<close>

record session_state =
  meal_logs :: "meal_record list option"

text \<open>Lines 130-132 and 135: create the list if the key is missing, then append.\<close>

definition meal_logs_append :: "meal_record \<Rightarrow> session_state \<Rightarrow> session_state" where
  "meal_logs_append r st =
     (let st1 = (if meal_logs st = None then st\<lparr>meal_logs := Some []\<rparr> else st)
      in st1\<lparr>meal_logs := map_option (\<lambda>logs. logs @ [r]) (meal_logs st1)\<rparr>)"

text \<open>Lines 132-135: the record, \<^verbatim>\<open>input_text or "Unnamed Meal"\<close> for the name.\<close>

definition new_meal_record :: "string \<Rightarrow> string \<Rightarrow> meal_record" where
  "new_meal_record input_text response_text =
     \<lparr>meal_name = (if input_text \<noteq> [] then input_text else ''Unnamed Meal''),
      response = response_text\<rparr>"

text \<open>What tab 1 shows: \<^verbatim>\<open>st.error\<close>, \<^verbatim>\<open>st.success\<close>, \<^verbatim>\<open>st.write\<close>.\<close>

datatype display = Error_box string | Success_box string | Write_text string

text \<open>
  Lines 118-138: the handler of the button "Analyze Image". It returns what it shows and
  the session state it leaves. Every exception raised in the guarded block (lines
  123-135) is caught by \<^verbatim>\<open>except Exception as e\<close> and shown as
  \<^verbatim>\<open>f"Error: {e}"\<close>.
\<close>

definition calorie_button ::
  "vision_model \<Rightarrow> uploaded_file option \<Rightarrow> string \<Rightarrow> session_state
     \<Rightarrow> display list \<times> session_state" where
  "calorie_button generate_content uploaded input_text st =
     (case uploaded of
        None \<Rightarrow> ([Error_box ''Please upload an image to analyze.''], st)
      | Some f \<Rightarrow>
          (let image_data = input_image_setup f;
               prompt = full_prompt input_text
           in case get_gemini_response generate_content image_data prompt of
                Inl e \<Rightarrow> ([Error_box (''Error: '' @ e)], st)
              | Inr response_text \<Rightarrow>
                  ([Success_box ''Analysis Complete!'', Write_text response_text],
                   meal_logs_append (new_meal_record input_text response_text) st)))"

text \<open>
  Modelled from the spec: \<open>readAll\<close> of the MealLogStore. The script has no code that
  reads the log back (the tab "Meal History" has no body); the spec's \<open>readAll\<close>
  "produces records in insertion order; empty sequence initially", which is the list
  under the key \<^verbatim>\<open>"meal_logs"\<close>, empty while the key is absent.
\<close>

definition read_all :: "session_state \<Rightarrow> meal_record list" where
  "read_all st = (case meal_logs st of None \<Rightarrow> [] | Some logs \<Rightarrow> logs)"

subsection \<open>The formulas as the specification words them\<close>

text \<open>
  The specification's closed enumerations for sex and activity level, the labels the
  select boxes offer for them, and its two formulas. These follow the specification's
  text; the theorems below compare them with the handlers above.
\<close>

datatype sex = Male | Female

datatype activity_level = Sedentary | Lightly_active | Moderately_active | Very_active

fun sex_label :: "sex \<Rightarrow> string" where
  "sex_label Male = ''Male''"
| "sex_label Female = ''Female''"

fun activity_label :: "activity_level \<Rightarrow> string" where
  "activity_label Sedentary = ''Sedentary (little or no exercise)''"
| "activity_label Lightly_active = ''Lightly active (light exercise/sports 1-3 days/week)''"
| "activity_label Moderately_active =
     ''Moderately active (moderate exercise/sports 3-5 days/week)''"
| "activity_label Very_active = ''Very active (hard exercise/sports 6-7 days/week)''"

fun spec_calorie_multiplier :: "activity_level \<Rightarrow> real" where
  "spec_calorie_multiplier Sedentary = 1.2"
| "spec_calorie_multiplier Lightly_active = 1.375"
| "spec_calorie_multiplier Moderately_active = 1.55"
| "spec_calorie_multiplier Very_active = 1.725"

definition spec_bmr :: "int \<Rightarrow> real \<Rightarrow> real \<Rightarrow> sex \<Rightarrow> real" where
  "spec_bmr ageYears weightKg heightM s =
     10 * weightKg + 6.25 * (heightM * 100) - 5 * real_of_int ageYears
       + (case s of Male \<Rightarrow> 5 | Female \<Rightarrow> - 161)"

definition spec_daily_calories :: "int \<Rightarrow> real \<Rightarrow> real \<Rightarrow> sex \<Rightarrow> activity_level \<Rightarrow> real" where
  "spec_daily_calories ageYears weightKg heightM s a =
     spec_bmr ageYears weightKg heightM s * spec_calorie_multiplier a"

fun spec_water_multiplier :: "activity_level \<Rightarrow> real" where
  "spec_water_multiplier Sedentary = 30"
| "spec_water_multiplier Lightly_active = 35"
| "spec_water_multiplier Moderately_active = 40"
| "spec_water_multiplier Very_active = 45"

definition spec_water_intake_liters :: "real \<Rightarrow> activity_level \<Rightarrow> real" where
  "spec_water_intake_liters weightKg a = weightKg * spec_water_multiplier a / 1000"

text \<open>The four fixed labels.\<close>

definition activity_labels :: "string set" where
  "activity_labels =
     {''Sedentary (little or no exercise)'',
      ''Lightly active (light exercise/sports 1-3 days/week)'',
      ''Moderately active (moderate exercise/sports 3-5 days/week)'',
      ''Very active (hard exercise/sports 6-7 days/week)''}"

section \<open>Properties\<close>

subsection \<open>BMI\<close>


lemma bmi_button_exact:
  "bmi_button weightKg heightM =
     bmi_button_float (\<lambda>x n. x ^ n) (\<lambda>x y. x / y) weightKg heightM"
  by (simp add: bmi_button_def bmi_button_float_def bmi_def Let_def)

text \<open>
  The two literals that are not doubles: \<^verbatim>\<open>24.9\<close> is \<^verbatim>\<open>0x1.8e66666666666p+4\<close> and
  \<^verbatim>\<open>29.9\<close> is \<^verbatim>\<open>0x1.de66666666666p+4\<close>, each below its decimal by less than
  \<open>2 ^ - 49\<close>.
\<close>

lemma float_24_9: "float_literal_16_32 24.9 = 7008726920095334 / 2 ^ 48"
  by (simp add: float_literal_16_32_def round_half_even_def Let_def)

lemma float_29_9: "float_literal_16_32 29.9 = 8416101803648614 / 2 ^ 48"
  by (simp add: float_literal_16_32_def round_half_even_def Let_def)

lemma float_literal_16_32_close: "\<bar>float_literal_16_32 x - x\<bar> \<le> 1 / 2 ^ 49"
proof -
  define y where "y = x * 2 ^ 48"
  have "\<bar>real_of_int (round_half_even y) - y\<bar> \<le> 1 / 2"
    unfolding round_half_even_def Let_def by (auto; linarith)
  then have "\<bar>real_of_int (round_half_even y) / 2 ^ 48 - y / 2 ^ 48\<bar> \<le> (1 / 2) / 2 ^ 48"
    by (simp add: divide_right_mono flip: diff_divide_distrib)
  then show ?thesis
    by (simp add: float_literal_16_32_def y_def)
qed

lemma bmi_category_underweight: "b < 18.5 \<Longrightarrow> bmi_category b = Underweight"
  by (simp add: bmi_category_def)

lemma bmi_category_normal:
  "18.5 \<le> b \<Longrightarrow> b < float_literal_16_32 24.9 \<Longrightarrow> bmi_category b = Normal"
  unfolding bmi_category_def by auto

lemma bmi_category_overweight:
  "25 \<le> b \<Longrightarrow> b < float_literal_16_32 29.9 \<Longrightarrow> bmi_category b = Overweight"
  unfolding bmi_category_def float_24_9 by auto


lemma bmi_category_obese: "float_literal_16_32 29.9 \<le> b \<Longrightarrow> bmi_category b = Obese"
  unfolding bmi_category_def float_24_9 float_29_9 by auto

text \<open>
  The chain at two doubles next to its literals. The double \<^verbatim>\<open>24.9\<close> itself is not
  below the literal \<^verbatim>\<open>24.9\<close>, and the double just below 25, which is what
  \<^verbatim>\<open>64.0 / (1.6 ** 2)\<close> rounds to, is not at least 25: both reach the last branch.
\<close>

lemma bmi_category_double_24_9: "bmi_category (float_literal_16_32 24.9) = Obese"
  unfolding bmi_category_def float_24_9 float_29_9 by simp

lemma bmi_category_below_25: "bmi_category (25 - 1 / 2 ^ 48) = Obese"
  unfolding bmi_category_def float_24_9 float_29_9 by simp

text \<open>
  Claim C1. For every weight > 0 and height > 0 the handler computes a BMI, and the value
  is the weight divided by the square of the height; being a function of its two
  arguments, the result is the same at every call.
\<close>

theorem C1_bmi_value:
  assumes "0 < weightKg" and "0 < heightM"
  shows "\<exists>c. bmi_button weightKg heightM = Computed (weightKg / (heightM * heightM), c)"
  using assms by (simp add: bmi_button_def bmi_def power2_eq_square)

theorem C1_bmi_value_witness:
  "(0::real) < 70 \<and> (0::real) < 1.75
   \<and> (\<exists>c. bmi_button 70 1.75 = Computed (70 / (1.75 * 1.75), c))"
  using C1_bmi_value [of 70 "1.75"] by simp

text \<open>
  Claim C2. For every weight > 0 and height > 0, with \<open>b\<close> the BMI value that the
  handler computes, whatever the double arithmetic rounds to: \<open>b\<close> in [0, 18.5) is shown
  as Underweight, in [18.5, 24.9) as Normal, in [25, 29.9) as Overweight and in
  [29.9, \<infinity>) as Obese, where 24.9 and 29.9 are the doubles of these literals. The
  witness takes the theorem at the six boundary values of the claim, the doubles
  18.49999, 18.5, 24.89999, 25.0, 29.89999 and 29.9, as weights at the height 1.0, where
  \<^verbatim>\<open>**\<close> and \<^verbatim>\<open>/\<close> do not round.
\<close>

theorem C2_bmi_category_table:
  assumes "0 < weightKg" and "0 < heightM"
    and "b = float_div weightKg (float_pow heightM 2)"
  shows "(0 \<le> b \<and> b < 18.5 \<longrightarrow>
            bmi_button_float float_pow float_div weightKg heightM
              = Computed (b, Underweight))
       \<and> (18.5 \<le> b \<and> b < float_literal_16_32 24.9 \<longrightarrow>
            bmi_button_float float_pow float_div weightKg heightM
              = Computed (b, Normal))
       \<and> (25 \<le> b \<and> b < float_literal_16_32 29.9 \<longrightarrow>
            bmi_button_float float_pow float_div weightKg heightM
              = Computed (b, Overweight))
       \<and> (float_literal_16_32 29.9 \<le> b \<longrightarrow>
            bmi_button_float float_pow float_div weightKg heightM
              = Computed (b, Obese))"
  using assms(2) unfolding bmi_button_float_def Let_def assms(3) [symmetric]
  by (simp add: bmi_category_underweight bmi_category_normal bmi_category_overweight
        bmi_category_obese)

theorem C2_bmi_category_table_witness:
  "bmi_button_float (\<lambda>x n. x ^ n) (\<lambda>x y. x / y) (float_literal_16_32 18.49999) 1
     = Computed (float_literal_16_32 18.49999, Underweight)
   \<and> bmi_button_float (\<lambda>x n. x ^ n) (\<lambda>x y. x / y) (float_literal_16_32 18.5) 1
     = Computed (float_literal_16_32 18.5, Normal)
   \<and> bmi_button_float (\<lambda>x n. x ^ n) (\<lambda>x y. x / y) (float_literal_16_32 24.89999) 1
     = Computed (float_literal_16_32 24.89999, Normal)
   \<and> bmi_button_float (\<lambda>x n. x ^ n) (\<lambda>x y. x / y) (float_literal_16_32 25.0) 1
     = Computed (float_literal_16_32 25.0, Overweight)
   \<and> bmi_button_float (\<lambda>x n. x ^ n) (\<lambda>x y. x / y) (float_literal_16_32 29.89999) 1
     = Computed (float_literal_16_32 29.89999, Overweight)
   \<and> bmi_button_float (\<lambda>x n. x ^ n) (\<lambda>x y. x / y) (float_literal_16_32 29.9) 1
     = Computed (float_literal_16_32 29.9, Obese)"
  using
    C2_bmi_category_table [where float_pow = "\<lambda>x n. x ^ n" and float_div = "\<lambda>x y. x / y"
      and heightM = 1 and weightKg = "float_literal_16_32 18.49999"
      and b = "float_literal_16_32 18.49999"]
    C2_bmi_category_table [where float_pow = "\<lambda>x n. x ^ n" and float_div = "\<lambda>x y. x / y"
      and heightM = 1 and weightKg = "float_literal_16_32 18.5"
      and b = "float_literal_16_32 18.5"]
    C2_bmi_category_table [where float_pow = "\<lambda>x n. x ^ n" and float_div = "\<lambda>x y. x / y"
      and heightM = 1 and weightKg = "float_literal_16_32 24.89999"
      and b = "float_literal_16_32 24.89999"]
    C2_bmi_category_table [where float_pow = "\<lambda>x n. x ^ n" and float_div = "\<lambda>x y. x / y"
      and heightM = 1 and weightKg = "float_literal_16_32 25.0"
      and b = "float_literal_16_32 25.0"]
    C2_bmi_category_table [where float_pow = "\<lambda>x n. x ^ n" and float_div = "\<lambda>x y. x / y"
      and heightM = 1 and weightKg = "float_literal_16_32 29.89999"
      and b = "float_literal_16_32 29.89999"]
    C2_bmi_category_table [where float_pow = "\<lambda>x n. x ^ n" and float_div = "\<lambda>x y. x / y"
      and heightM = 1 and weightKg = "float_literal_16_32 29.9"
      and b = "float_literal_16_32 29.9"]
  by (simp add: float_literal_16_32_def round_half_even_def Let_def)

text \<open>
  Claim C3 says that no weight > 0 and height > 0 give a BMI value in the gap [24.9, 25)
  between the two boundary literals. It fails: 99.8 kg at 2 m gives 24.95, which the
  chain of comparisons then passes to its last branch.
\<close>

theorem C3_gap_counterexample:
  "(0::real) < 99.8 \<and> (0::real) < 2 \<and> 24.9 \<le> bmi 99.8 2 \<and> bmi 99.8 2 < 25
   \<and> bmi_button 99.8 2 = Computed (bmi 99.8 2, Obese)"
  by (simp add: bmi_button_def bmi_def bmi_category_def float_24_9 float_29_9)

text \<open>
  Claim C3, amended. The gap is reachable: there are a weight > 0 and a height > 0 whose
  computed BMI value lies in [24.9, 25), for example 99.8 kg at 2 m with the value 24.95.
\<close>

theorem C3_gap_reachable:
  "\<exists>weightKg heightM b c. 0 < weightKg \<and> 0 < heightM
     \<and> bmi_button weightKg heightM = Computed (b, c) \<and> 24.9 \<le> b \<and> b < 25"
proof -
  have "(0::real) < 99.8 \<and> (0::real) < 2
        \<and> bmi_button 99.8 2 = Computed (24.95, bmi_category 24.95)
        \<and> (24.9::real) \<le> 24.95 \<and> (24.95::real) < 25"
    by (simp add: bmi_button_def bmi_def)
  then show ?thesis by blast
qed



subsection \<open>Daily calories and water intake\<close>

lemma activity_multipliers_getitem_label:
  "activity_multipliers_getitem (activity_label a) = Inr (spec_calorie_multiplier a)"
  by (cases a) (simp_all add: activity_multipliers_getitem_def activity_multipliers_def)

lemma activity_multiplier_getitem_label:
  "activity_multiplier_getitem (activity_label a) =
     Inr (case a of Sedentary \<Rightarrow> 30 | Lightly_active \<Rightarrow> 35
          | Moderately_active \<Rightarrow> 40 | Very_active \<Rightarrow> 45)"
  by (cases a) (simp_all add: activity_multiplier_getitem_def activity_multiplier_def)

lemma gender_term:
  "(if sex_label s = ''Male'' then 5 else - 161) =
     (case s of Male \<Rightarrow> (5::real) | Female \<Rightarrow> - 161)"
  by (cases s) simp_all

lemma activity_multipliers_missing:
  "activity \<notin> activity_labels \<Longrightarrow> activity_multipliers activity = None"
  by (simp add: activity_labels_def activity_multipliers_def)

lemma activity_multiplier_missing:
  "activity \<notin> activity_labels \<Longrightarrow> activity_multiplier activity = None"
  by (simp add: activity_labels_def activity_multiplier_def)

text \<open>
  Claim C4. For every age > 0, weight > 0, height > 0, sex Male or Female and each of the
  four activity labels, the handler computes the specification's value: the
  Mifflin-St Jeor rate \<open>10 w + 6.25 (100 h) - 5 age + (5 or -161)\<close> times the multiplier
  of the label (1.2, 1.375, 1.55, 1.725), with no rounding. The witness is the claim's
  example: age 25, 70 kg, 1.75 m, Male, Sedentary gives 1673.75 times 1.2 = 2008.5.
\<close>

theorem C4_daily_calories:
  assumes "0 < ageYears" and "0 < weightKg" and "0 < heightM"
  shows "calorie_req_button ageYears weightKg heightM (sex_label s) (activity_label a)
           = Computed (spec_daily_calories ageYears weightKg heightM s a)"
  using assms
  by (simp add: calorie_req_button_def activity_multipliers_getitem_label gender_term
        spec_daily_calories_def spec_bmr_def)

theorem C4_daily_calories_witness:
  "(0::int) < 25 \<and> (0::real) < 70 \<and> (0::real) < 1.75
   \<and> calorie_req_button 25 70 1.75 ''Male'' ''Sedentary (little or no exercise)''
       = Computed 2008.5
   \<and> \<bar>2008.5 - 1673.75 * 1.2\<bar> \<le> (0.01::real)"
  using C4_daily_calories [of 25 70 "1.75" Male Sedentary]
  by (simp add: spec_daily_calories_def spec_bmr_def)

text \<open>
  Claim C5. For every weight > 0 and each of the four activity labels, the handler
  computes weight times the multiplier of the label (30, 35, 40, 45 mL per kg) divided
  by 1000. The witness is the claim's example: 70 kg, Moderately active, 2.8 liters.
\<close>

theorem C5_water_intake:
  assumes "0 < weightKg"
  shows "water_button weightKg (activity_label a)
           = Computed (spec_water_intake_liters weightKg a)"
  unfolding water_button_def activity_multiplier_getitem_label
  by (cases a) (simp_all add: spec_water_intake_liters_def)

theorem C5_water_intake_witness:
  "(0::real) < 70
   \<and> water_button 70 ''Moderately active (moderate exercise/sports 3-5 days/week)''
       = Computed 2.8"
  using C5_water_intake [of 70 Moderately_active]
  by (simp add: spec_water_intake_liters_def)

text \<open>
  Claim C6. When the age, the weight or the height is not positive (the age 0 in
  particular), the calorie handler shows its validation error, whatever the other
  inputs are, and computes no number: the formula and the table lookup are not reached.
\<close>

theorem C6_invalid_inputs:
  assumes "ageYears \<le> 0 \<or> weightKg \<le> 0 \<or> heightM \<le> 0"
  shows "calorie_req_button ageYears weightKg heightM gender activity
           = St_error ''Please provide valid inputs.''"
  using assms by (auto simp add: calorie_req_button_def)

theorem C6_invalid_inputs_witness:
  "calorie_req_button 0 70 1.75 ''Male'' ''Sedentary (little or no exercise)''
     = St_error ''Please provide valid inputs.''
   \<and> calorie_req_button 25 0 1.75 ''Male'' ''Sedentary (little or no exercise)''
     = St_error ''Please provide valid inputs.''
   \<and> calorie_req_button 25 70 (- 1) ''Female'' ''no such label''
     = St_error ''Please provide valid inputs.''"
  using C6_invalid_inputs [of 0 70 "1.75" "''Male''" "''Sedentary (little or no exercise)''"]
        C6_invalid_inputs [of 25 0 "1.75" "''Male''" "''Sedentary (little or no exercise)''"]
        C6_invalid_inputs [of 25 70 "- 1" "''Female''" "''no such label''"]
  by simp

text \<open>
  Claim C7. For every string outside the four labels, the subscript of the calorie table
  and the subscript of the water table both raise KeyError (a LookupError) for that
  string; no default multiplier is used and no number results. The same holds of the two
  handlers, the calorie handler once its three numbers are positive.
\<close>

theorem C7_unknown_label:
  assumes "activity \<notin> activity_labels"
  shows "activity_multipliers_getitem activity = Inl (KeyError activity)
       \<and> activity_multiplier_getitem activity = Inl (KeyError activity)
       \<and> water_button weightKg activity = Raised (KeyError activity)
       \<and> (0 < ageYears \<and> 0 < weightKg \<and> 0 < heightM \<longrightarrow>
            calorie_req_button ageYears weightKg heightM gender activity
              = Raised (KeyError activity))"
  by (simp add: activity_multipliers_getitem_def activity_multiplier_getitem_def
        water_button_def calorie_req_button_def
        activity_multipliers_missing [OF assms] activity_multiplier_missing [OF assms])

theorem C7_unknown_label_witness:
  "''Extremely active'' \<notin> activity_labels
   \<and> activity_multipliers_getitem ''Extremely active'' = Inl (KeyError ''Extremely active'')
   \<and> activity_multiplier_getitem ''Extremely active'' = Inl (KeyError ''Extremely active'')
   \<and> water_button 70 ''Extremely active'' = Raised (KeyError ''Extremely active'')
   \<and> calorie_req_button 25 70 1.75 ''Male'' ''Extremely active''
        = Raised (KeyError ''Extremely active'')"
proof -
  have h: "''Extremely active'' \<notin> activity_labels"
    by (simp add: activity_labels_def)
  show ?thesis
    using h C7_unknown_label [OF h, of 70 25 "1.75" "''Male''"] by simp
qed

subsection \<open>The meal log\<close>

lemma read_all_append: "read_all (meal_logs_append r st) = read_all st @ [r]"
  by (cases "meal_logs st") (simp_all add: read_all_def meal_logs_append_def)

lemma calorie_button_success:
  "generate_content (full_prompt input_text)
       \<lparr>mime_type = upload_type f, data = upload_value f\<rparr> = Inr text \<Longrightarrow>
   calorie_button generate_content (Some f) input_text st
     = ([Success_box ''Analysis Complete!'', Write_text text],
        meal_logs_append (new_meal_record input_text text) st)"
  by (simp add: calorie_button_def get_gemini_response_def input_image_setup_def)

text \<open>
  Claim C8. From any state of the log, appending \<open>r1\<close> and then \<open>r2\<close> leaves the earlier
  records followed by \<open>r1, r2\<close>, in that order. When the model returns a text for the
  uploaded image, the handler appends one record: its name is the user's text, or
  "Unnamed Meal" when the user's text is empty, and its analysis is the returned text.
\<close>

theorem C8_append_order:
  assumes "generate_content (full_prompt input_text)
             \<lparr>mime_type = upload_type f, data = upload_value f\<rparr> = Inr text"
  shows "read_all (meal_logs_append r2 (meal_logs_append r1 st)) = read_all st @ [r1, r2]
       \<and> read_all (snd (calorie_button generate_content (Some f) input_text st))
           = read_all st
             @ [\<lparr>meal_name = (if input_text = [] then ''Unnamed Meal'' else input_text),
                 response = text\<rparr>]"
  using assms by (simp add: calorie_button_success read_all_append new_meal_record_def)

theorem C8_append_order_witness:
  "read_all (snd (calorie_button (\<lambda>prompt part. Inr ''Rice: 200 kcal'')
       (Some \<lparr>upload_type = ''image/png'', upload_value = [137, 80, 78, 71]\<rparr>) []
       \<lparr>meal_logs = None\<rparr>))
     = [\<lparr>meal_name = ''Unnamed Meal'', response = ''Rice: 200 kcal''\<rparr>]
   \<and> read_all (meal_logs_append \<lparr>meal_name = ''dinner'', response = ''B''\<rparr>
        (meal_logs_append \<lparr>meal_name = ''lunch'', response = ''A''\<rparr>
           \<lparr>meal_logs =
              Some [\<lparr>meal_name = ''Unnamed Meal'', response = ''Rice: 200 kcal''\<rparr>]\<rparr>))
     = [\<lparr>meal_name = ''Unnamed Meal'', response = ''Rice: 200 kcal''\<rparr>,
        \<lparr>meal_name = ''lunch'', response = ''A''\<rparr>,
        \<lparr>meal_name = ''dinner'', response = ''B''\<rparr>]"
  using C8_append_order [of "\<lambda>prompt part. Inr ''Rice: 200 kcal''" "[]"
          "\<lparr>upload_type = ''image/png'', upload_value = [137, 80, 78, 71]\<rparr>"
          "''Rice: 200 kcal''" "\<lparr>meal_name = ''dinner'', response = ''B''\<rparr>"
          "\<lparr>meal_name = ''lunch'', response = ''A''\<rparr>"
          "\<lparr>meal_logs = None\<rparr>"]
     C8_append_order [of "\<lambda>prompt part. Inr ''Rice: 200 kcal''" "[]"
          "\<lparr>upload_type = ''image/png'', upload_value = [137, 80, 78, 71]\<rparr>"
          "''Rice: 200 kcal''" "\<lparr>meal_name = ''dinner'', response = ''B''\<rparr>"
          "\<lparr>meal_name = ''lunch'', response = ''A''\<rparr>"
          "\<lparr>meal_logs =
             Some [\<lparr>meal_name = ''Unnamed Meal'', response = ''Rice: 200 kcal''\<rparr>]\<rparr>"]
  by (simp add: read_all_def)

text \<open>
  Claim C9. When the call of the vision model raises, the handler catches the exception,
  shows one error message, "Error: " followed by the text of the exception, and returns
  the session state it was given: no record is appended and nothing else changes.
\<close>

theorem C9_failure_leaves_state:
  assumes "generate_content (full_prompt input_text)
             \<lparr>mime_type = upload_type f, data = upload_value f\<rparr> = Inl cause"
  shows "calorie_button generate_content (Some f) input_text st
           = ([Error_box (''Error: '' @ cause)], st)"
  using assms
  by (simp add: calorie_button_def get_gemini_response_def input_image_setup_def)

theorem C9_failure_leaves_state_witness:
  "calorie_button (\<lambda>prompt part. Inl ''429 quota exceeded'')
       (Some \<lparr>upload_type = ''image/png'', upload_value = [137, 80, 78, 71]\<rparr>) ''lunch''
       \<lparr>meal_logs = Some [\<lparr>meal_name = ''Unnamed Meal'', response = ''Rice: 200 kcal''\<rparr>]\<rparr>
     = ([Error_box ''Error: 429 quota exceeded''],
        \<lparr>meal_logs = Some [\<lparr>meal_name = ''Unnamed Meal'', response = ''Rice: 200 kcal''\<rparr>]\<rparr>)"
  using C9_failure_leaves_state [of "\<lambda>prompt part. Inl ''429 quota exceeded''" "''lunch''"
          "\<lparr>upload_type = ''image/png'', upload_value = [137, 80, 78, 71]\<rparr>"
          "''429 quota exceeded''"
          "\<lparr>meal_logs =
             Some [\<lparr>meal_name = ''Unnamed Meal'', response = ''Rice: 200 kcal''\<rparr>]\<rparr>"]
  by simp

end
